theory Spec2Isabelle
  imports Complex_Main "HOL-Library.Sublist" "HOL-Library.Multiset"
begin

section \<open>Python values, exceptions and the two output streams\<close>

text \<open>
  An exception in flight is either an instance of \<^verbatim>\<open>Exception\<close> (which the clause
  \<^verbatim>\<open>except Exception as e\<close> catches; the engine's own error classes are of this kind) or
  an instance of \<^verbatim>\<open>BaseException\<close> outside \<^verbatim>\<open>Exception\<close> (a keyboard interrupt, a
  system exit, a panic of the engine's native code), which that clause lets through. The
  string is \<^verbatim>\<open>str(e)\<close>.
\<close>

datatype exn = Exception string | BaseException string

text \<open>
  A value of the engine's 64-bit float type, as far as the module meets it: a finite number
  (given by its exact rational value), positive infinity or a NaN. A row of the frame of
  null statistics has the three columns that the report builds.
\<close>

datatype f64 = Finite rat | PosInf | NaN

record null_stats_row =
  column_name :: string
  null_count :: nat
  null_percentage :: f64

text \<open>
  One entry per call of \<^verbatim>\<open>print\<close>. Text whose rendering the source determines is a
  string. Two calls hand the rendering to something the source does not fix: the join of a
  Python \<^verbatim>\<open>set\<close> (iteration order unspecified), kept as the set itself, and the printing of a
  derived frame (laid out by the engine's printer), kept as the frame's rows.
\<close>

datatype printed =
    Text string
  | DtypesLine "string set"
  | Frame "null_stats_row list"

record io =
  stdout :: "printed list"
  stderr :: "string list"

definition print_out :: "printed \<Rightarrow> io \<Rightarrow> io" where
  "print_out p s = s\<lparr>stdout := stdout s @ [p]\<rparr>"

definition print_err :: "string \<Rightarrow> io \<Rightarrow> io" where
  "print_err msg s = s\<lparr>stderr := stderr s @ [msg]\<rparr>"

subsection \<open>Formatting\<close>

text \<open>\<^verbatim>\<open>str\<close> of an integer: decimal digits, with a minus sign for a negative one.
  \<open>digit_char\<close> is only applied to numbers below 10.\<close>

definition digit_char :: "nat \<Rightarrow> char" where
  "digit_char d = ''0123456789'' ! d"

fun show_nat :: "nat \<Rightarrow> string" where
  "show_nat n = (if n < 10 then [digit_char n] else show_nat (n div 10) @ [digit_char (n mod 10)])"

declare show_nat.simps [simp del]

definition show_int :: "int \<Rightarrow> string" where
  "show_int i = (if i < 0 then CHR ''-'' # show_nat (nat (- i)) else show_nat (nat i))"

text \<open>
  A string is the sequence of bytes of its UTF-8 encoding. Python counts characters: the
  bytes that do not continue a character of several bytes (those are the codes 128 to 191).
\<close>

definition char_count :: "string \<Rightarrow> nat" where
  "char_count s =
     length (filter (\<lambda>c. \<not> (128 \<le> (of_char c :: nat) \<and> (of_char c :: nat) < 192)) s)"

text \<open>The format specification \<^verbatim>\<open>:<w\<close>: pad with spaces on the right up to \<open>w\<close>
  characters, never truncate.\<close>

definition ljust :: "nat \<Rightarrow> string \<Rightarrow> string" where
  "ljust w s = s @ replicate (w - char_count s) CHR '' ''"

text \<open>The check mark U+2705 that opens two of the messages, as its UTF-8 bytes.\<close>

definition check_mark :: string where
  "check_mark = [CHR 0xE2, CHR 0x9C, CHR 0x85]"

section \<open>Registration\<close>







section \<open>The table engine\<close>

text \<open>
  The engine is an external collaborator; the definitions of this section state what the
  module relies on. A table is an immutable value: a list of named, typed columns, each a
  list of cells where \<open>None\<close> is a null, together with the engine's estimate of its
  size in bytes. Only the nullness of a cell matters to the module.
\<close>

datatype dtype = DataType string

fun dtype_str :: "dtype \<Rightarrow> string" where
  "dtype_str (DataType s) = s"

datatype anyvalue = IntValue int | StrValue string | BoolValue bool

record series =
  name_of :: string
  dtype_of :: dtype
  values_of :: "anyvalue option list"

record table =
  columns :: "series list"
  estimated_bytes :: nat

definition height_of :: "table \<Rightarrow> nat" where
  "height_of t = (case columns t of [] \<Rightarrow> 0 | c # _ \<Rightarrow> length (values_of c))"

definition width_of :: "table \<Rightarrow> nat" where
  "width_of t = length (columns t)"

definition series_null_count :: "series \<Rightarrow> nat" where
  "series_null_count c = length (filter (\<lambda>v. v = None) (values_of c))"

text \<open>The engine's invariant: every column has as many cells as the table has rows, and
  the column names are pairwise distinct.\<close>

definition wf_table :: "table \<Rightarrow> bool" where
  "wf_table t =
     (list_all (\<lambda>c. length (values_of c) = height_of t) (columns t)
      \<and> distinct (map name_of (columns t)))"

subsection \<open>What the reporting functions call on \<^verbatim>\<open>self\<close>\<close>

text \<open>
  The two reporting functions only call methods and read properties of \<^verbatim>\<open>self\<close>; each such
  access either yields a value or raises. \<open>df_null_count\<close> is the one-row frame of
  \<^verbatim>\<open>self.null_count()\<close>, given as the column names with their counts.
\<close>

record dataframe =
  df_shape :: "exn + nat \<times> nat"
  df_height :: "exn + nat"
  df_null_count :: "exn + (string \<times> nat) list"
  df_schema :: "exn + (string \<times> dtype) list"
  df_estimated_size :: "exn + nat"
  df_dtypes :: "exn + dtype list"

text \<open>An engine table seen through these accesses: none of them fails.\<close>

definition DataFrame :: "table \<Rightarrow> dataframe" where
  "DataFrame t =
     \<lparr>df_shape = Inr (height_of t, width_of t),
      df_height = Inr (height_of t),
      df_null_count = Inr (map (\<lambda>c. (name_of c, series_null_count c)) (columns t)),
      df_schema = Inr (map (\<lambda>c. (name_of c, dtype_of c)) (columns t)),
      df_estimated_size = Inr (estimated_bytes t),
      df_dtypes = Inr (map dtype_of (columns t))\<rparr>"

text \<open>\<^verbatim>\<open>.row(0)\<close> of the frame of null counts, which has one row whatever the number
  of columns: the tuple of its values.\<close>

definition row :: "(string \<times> nat) list \<Rightarrow> nat \<Rightarrow> exn + nat list" where
  "row counts idx =
     (if idx < 1 then Inr (map snd counts)
      else Inl (Exception (''index '' @ show_nat idx @ '' is out of bounds for sequence of length 1'')))"

text \<open>
  The source does not say which version of the engine it runs on, and the versions differ
  on one point that the report of missing values meets: asked to transpose a frame without
  columns, some refuse with an error and the others return a frame without rows. The
  engine at hand is a parameter of that report.
\<close>

record engine =
  refuses_empty_transpose :: bool

text \<open>
  \<^verbatim>\<open>.transpose(include_header=True, header_name="column_name")\<close> followed by
  \<^verbatim>\<open>.rename({"column_0": "null_count"})\<close>: one row per column of the one-row frame, holding the
  column's name and its count.
\<close>

definition transpose_frame :: "engine \<Rightarrow> (string \<times> nat) list \<Rightarrow> exn + (string \<times> nat) list" where
  "transpose_frame eng counts =
     (if counts = [] \<and> refuses_empty_transpose eng
      then Inl (Exception ''unable to transpose an empty DataFrame'')
      else Inr counts)"

text \<open>
  The expression \<^verbatim>\<open>(pl.col("null_count") / total_rows * 100).round(2)\<close> is evaluated in
  64-bit floating point. A finite result is represented by the exact rational value of the
  expression (rounding errors of finite arithmetic are left out); the two special results
  of a division by zero are explicit: \<open>0 / 0\<close> is a NaN and \<open>n / 0\<close> for \<open>n > 0\<close>
  is infinite. Neither operation raises. Rounding to two decimals sends a tie to the even
  digit.
\<close>

definition true_div :: "nat \<Rightarrow> nat \<Rightarrow> f64" where
  "true_div a b =
     (if b = 0 then (if a = 0 then NaN else PosInf)
      else Finite (of_nat a / of_nat b))"

fun times_100 :: "f64 \<Rightarrow> f64" where
  "times_100 (Finite q) = Finite (q * 100)"
| "times_100 PosInf = PosInf"
| "times_100 NaN = NaN"

definition round_ties_even :: "rat \<Rightarrow> int" where
  "round_ties_even q =
     (let f = \<lfloor>q\<rfloor>; r = q - of_int f
      in if r < 1 / 2 then f
         else if 1 / 2 < r then f + 1
         else if even f then f else f + 1)"

fun round_2 :: "f64 \<Rightarrow> f64" where
  "round_2 (Finite q) = Finite (of_int (round_ties_even (q * 100)) / 100)"
| "round_2 PosInf = PosInf"
| "round_2 NaN = NaN"

definition with_null_percentage :: "nat \<Rightarrow> (string \<times> nat) list \<Rightarrow> null_stats_row list" where
  "with_null_percentage total_rows rows =
     map (\<lambda>(n, k). \<lparr>column_name = n, null_count = k,
                     null_percentage = round_2 (times_100 (true_div k total_rows))\<rparr>) rows"

text \<open>
  \<^verbatim>\<open>.sort("null_percentage", descending=True)\<close>. The engine orders floats with NaN above
  every number. It promises no order among rows with equal keys; the insertion sort below
  is one admissible outcome.
\<close>

fun f64_ge :: "f64 \<Rightarrow> f64 \<Rightarrow> bool" where
  "f64_ge NaN _ = True"
| "f64_ge PosInf NaN = False"
| "f64_ge PosInf _ = True"
| "f64_ge (Finite a) (Finite b) = (b \<le> a)"
| "f64_ge (Finite a) _ = False"

fun insert_descending :: "null_stats_row \<Rightarrow> null_stats_row list \<Rightarrow> null_stats_row list" where
  "insert_descending r [] = [r]"
| "insert_descending r (x # xs) =
     (if f64_ge (null_percentage r) (null_percentage x) then r # x # xs
      else x # insert_descending r xs)"

definition sort_descending :: "null_stats_row list \<Rightarrow> null_stats_row list" where
  "sort_descending rows = foldr insert_descending rows []"

subsection \<open>Renaming columns\<close>

text \<open>
  \<^verbatim>\<open>name.to_lowercase()\<close> on a name of ASCII characters: the letters A to Z (codes 65 to
  90) become a to z (codes 97 to 122), every other character stays. (On other characters
  the engine follows the Unicode case mapping, which is outside this model.)
\<close>

definition to_lowercase_char :: "char \<Rightarrow> char" where
  "to_lowercase_char c =
     (let n = of_char c :: nat
      in if 65 \<le> n \<and> n \<le> 90 then char_of (n + 32) else c)"

definition to_lowercase :: "string \<Rightarrow> string" where
  "to_lowercase x = map to_lowercase_char x"

text \<open>\<^verbatim>\<open>x.replace(" ", "_")\<close>, the function handed to \<^verbatim>\<open>name.map\<close>.\<close>

definition replace_space :: "string \<Rightarrow> string" where
  "replace_space x = map (\<lambda>c. if c = CHR '' '' then CHR ''_'' else c) x"

text \<open>
  Modelled from the spec: the engine's evaluation of a chain of name operations on a
  column expression, which is not part of this repository. The spec has the operations of
  the chain applied to the column's name one after the other, in the order written.
\<close>

definition output_name :: "(string \<Rightarrow> string) list \<Rightarrow> string \<Rightarrow> string" where
  "output_name chain root_name = fold (\<lambda>f n. f n) chain root_name"

fun first_duplicate :: "string list \<Rightarrow> string list \<Rightarrow> string option" where
  "first_duplicate seen [] = None"
| "first_duplicate seen (n # ns) =
     (if n \<in> set seen then Some n else first_duplicate (n # seen) ns)"

text \<open>
  \<^verbatim>\<open>self.select(pl.all().name. ...)\<close>: a new table with every column of \<open>t\<close> in order, each
  under its output name. The engine raises a duplicate error when two output names
  coincide (the text stands for its message).
\<close>

definition select_all :: "(string \<Rightarrow> string) list \<Rightarrow> table \<Rightarrow> exn + table" where
  "select_all chain t =
     (let cols = map (\<lambda>c. c\<lparr>name_of := output_name chain (name_of c)\<rparr>) (columns t)
      in (case first_duplicate [] (map name_of cols) of
            Some n \<Rightarrow> Inl (Exception (''the name '' @ [CHR 0x27] @ n @ [CHR 0x27] @ '' is duplicate''))
          | None \<Rightarrow> Inr (t\<lparr>columns := cols\<rparr>)))"

section \<open>The summary report\<close>

definition column_line :: "nat \<Rightarrow> string \<Rightarrow> int \<Rightarrow> dtype \<Rightarrow> string" where
  "column_line idx col_name non_null dt =
     ljust 4 (show_nat idx) @ '' '' @ ljust 25 col_name @ '' ''
       @ ljust 15 (show_int non_null) @ '' '' @ ljust 10 (dtype_str dt)"

text \<open>The loop over \<^verbatim>\<open>enumerate(self.schema.items())\<close>. Indexing the tuple of null counts
  beyond its end raises an \<^verbatim>\<open>IndexError\<close>; the lines printed before stay printed.\<close>

fun info_loop :: "int \<Rightarrow> nat list \<Rightarrow> nat \<Rightarrow> (string \<times> dtype) list \<Rightarrow> io \<Rightarrow> (exn + unit) \<times> io" where
  "info_loop n_rows null_counts idx [] s = (Inr (), s)"
| "info_loop n_rows null_counts idx ((col_name, dt) # rest) s =
     (if idx < length null_counts
      then info_loop n_rows null_counts (idx + 1) rest
             (print_out (Text (column_line idx col_name (n_rows - int (null_counts ! idx)) dt)) s)
      else (Inl (Exception ''tuple index out of range''), s))"

text \<open>
  \<^verbatim>\<open>f"{a / b:.2f}"\<close> for integers \<open>a \<ge> 0\<close> and \<open>b > 0\<close>: the quotient to two decimals,
  the nearest value with ties to the even digit. This is what the floating-point division
  and formatting give as long as \<open>a / b\<close> is exact in a double, which holds for a division
  by a power of two of any \<open>a\<close> below \<open>2^53\<close>.
\<close>

definition round_half_even :: "nat \<Rightarrow> nat \<Rightarrow> nat" where
  "round_half_even n d =
     (let q = n div d; r = n mod d
      in if 2 * r < d then q
         else if d < 2 * r then q + 1
         else if even q then q else q + 1)"

definition format_2f :: "nat \<Rightarrow> nat \<Rightarrow> string" where
  "format_2f a b =
     (let h = round_half_even (a * 100) b
      in show_nat (h div 100) @ ''.'' @ [digit_char (h mod 100 div 10), digit_char (h mod 10)])"

definition mem_str :: "nat \<Rightarrow> string" where
  "mem_str mem_usage =
     (if mem_usage > 1024 ^ 2 then format_2f mem_usage (1024 ^ 2) @ '' MB''
      else format_2f mem_usage 1024 @ '' KB'')"

definition info_header :: "nat \<Rightarrow> nat \<Rightarrow> printed list" where
  "info_header n_rows n_cols =
     [Text ''<class 'polars.DataFrame'>'',
      Text (''RangeIndex: '' @ show_nat n_rows @ '' entries, 0 to '' @ show_int (int n_rows - 1)),
      Text (''Data columns (total '' @ show_nat n_cols @ '' columns):''),
      Text (ljust 4 ''#'' @ '' '' @ ljust 25 ''Column'' @ '' '' @ ljust 15 ''Non-Null Count''
              @ '' '' @ ljust 10 ''Dtype''),
      Text (replicate 60 CHR ''-'')]"

text \<open>The body of the \<^verbatim>\<open>try\<close> block: it stops at the first step that raises.\<close>

definition info_try :: "dataframe \<Rightarrow> nat \<Rightarrow> io \<Rightarrow> (exn + unit) \<times> io" where
  "info_try self n_rows s =
     (case df_null_count self of Inl e \<Rightarrow> (Inl e, s) | Inr counts \<Rightarrow>
     (case row counts 0 of Inl e \<Rightarrow> (Inl e, s) | Inr null_counts \<Rightarrow>
     (case df_schema self of Inl e \<Rightarrow> (Inl e, s) | Inr items \<Rightarrow>
     (case info_loop (int n_rows) null_counts 0 items s of
        (Inl e, s1) \<Rightarrow> (Inl e, s1)
      | (Inr _, s1) \<Rightarrow>
          (let s2 = print_out (Text (replicate 60 CHR ''-'')) s1
           in (case df_estimated_size self of Inl e \<Rightarrow> (Inl e, s2) | Inr mem_usage \<Rightarrow>
              (case df_dtypes self of Inl e \<Rightarrow> (Inl e, s2) | Inr dts \<Rightarrow>
                 (Inr (),
                  print_out (Text (''memory usage: '' @ mem_str mem_usage))
                    (print_out (DtypesLine (set (map dtype_str dts))) s2)))))))))"

text \<open>\<^verbatim>\<open>_pandas_style_info\<close>: reading the shape and printing the header come before the
  \<^verbatim>\<open>try\<close>; the handler catches instances of \<^verbatim>\<open>Exception\<close> only.\<close>

definition pandas_style_info :: "dataframe \<Rightarrow> io \<Rightarrow> (exn + unit) \<times> io" where
  "pandas_style_info self s =
     (case df_shape self of Inl e \<Rightarrow> (Inl e, s)
      | Inr (n_rows, n_cols) \<Rightarrow>
          (case info_try self n_rows (s\<lparr>stdout := stdout s @ info_header n_rows n_cols\<rparr>) of
             (Inr _, s1) \<Rightarrow> (Inr (), s1)
           | (Inl (Exception msg), s1) \<Rightarrow>
               (Inr (), print_err (''Error generating info report: '' @ msg) s1)
           | (Inl (BaseException msg), s1) \<Rightarrow> (Inl (BaseException msg), s1)))"

section \<open>The report of missing values\<close>

definition null_stats :: "engine \<Rightarrow> dataframe \<Rightarrow> nat \<Rightarrow> exn + null_stats_row list" where
  "null_stats eng self total_rows =
     (case df_null_count self of Inl e \<Rightarrow> Inl e | Inr counts \<Rightarrow>
     (case transpose_frame eng counts of Inl e \<Rightarrow> Inl e | Inr rows \<Rightarrow>
        Inr (sort_descending
               (filter (\<lambda>r. null_count r > 0) (with_null_percentage total_rows rows)))))"

definition report_header :: "nat \<Rightarrow> string" where
  "report_header total_rows =
     ''--- Missing Values Report (Total Rows: '' @ show_nat total_rows @ '') ---''"

definition no_missing_message :: string where
  "no_missing_message = check_mark @ '' No missing values found in the dataset.''"

definition null_report_try :: "engine \<Rightarrow> dataframe \<Rightarrow> nat \<Rightarrow> io \<Rightarrow> (exn + unit) \<times> io" where
  "null_report_try eng self total_rows s =
     (case null_stats eng self total_rows of Inl e \<Rightarrow> (Inl e, s)
      | Inr stats \<Rightarrow>
          (let s1 = print_out (Text (report_header total_rows)) s
           in if stats = [] then (Inr (), print_out (Text no_missing_message) s1)
              else (Inr (), print_out (Frame stats) s1)))"

text \<open>\<^verbatim>\<open>_null_report\<close>: the height is read before the \<^verbatim>\<open>try\<close>.\<close>

definition null_report :: "engine \<Rightarrow> dataframe \<Rightarrow> io \<Rightarrow> (exn + unit) \<times> io" where
  "null_report eng self s =
     (case df_height self of Inl e \<Rightarrow> (Inl e, s)
      | Inr total_rows \<Rightarrow>
          (case null_report_try eng self total_rows s of
             (Inr _, s1) \<Rightarrow> (Inr (), s1)
           | (Inl (Exception msg), s1) \<Rightarrow>
               (Inr (), print_err (''Error generating null report: '' @ msg) s1)
           | (Inl (BaseException msg), s1) \<Rightarrow> (Inl (BaseException msg), s1)))"

section \<open>Cleaning column names\<close>

definition clean_column_names :: "table \<Rightarrow> exn + table" where
  "clean_column_names self = select_all [to_lowercase, replace_space] self"



section \<open>Observing the streams\<close>

text \<open>The rows of the frames among some printed entries, in the order printed.\<close>

fun frame_rows :: "printed \<Rightarrow> null_stats_row list" where
  "frame_rows (Frame rows) = rows"
| "frame_rows _ = []"

definition printed_rows :: "printed list \<Rightarrow> null_stats_row list" where
  "printed_rows ps = concat (map frame_rows ps)"

text \<open>
  Notation for the outcome of the steps inside the \<^verbatim>\<open>try\<close> block of each report, read off
  the accesses to \<^verbatim>\<open>self\<close> in the order in which the source makes them: the exception of
  the first step that raises, or no exception at all.
\<close>

abbreviation info_steps :: "dataframe \<Rightarrow> exn + unit" where
  "info_steps self \<equiv>
     (case df_null_count self of Inl e \<Rightarrow> Inl e | Inr counts \<Rightarrow>
     (case df_schema self of Inl e \<Rightarrow> Inl e | Inr items \<Rightarrow>
        if \<not> (items = [] \<or> length items \<le> length counts)
        then Inl (Exception ''tuple index out of range'')
        else (case df_estimated_size self of Inl e \<Rightarrow> Inl e | Inr m \<Rightarrow>
             (case df_dtypes self of Inl e \<Rightarrow> Inl e | Inr dts \<Rightarrow> Inr ()))))"

abbreviation report_steps :: "engine \<Rightarrow> dataframe \<Rightarrow> exn + unit" where
  "report_steps eng self \<equiv>
     (case df_null_count self of Inl e \<Rightarrow> Inl e
      | Inr counts \<Rightarrow>
          if counts = [] \<and> refuses_empty_transpose eng
          then Inl (Exception ''unable to transpose an empty DataFrame'')
          else Inr ())"

section \<open>Example inputs\<close>

text \<open>Three rows and two columns, with one null in the first column and two in the second.\<close>

definition example_table :: table where
  "example_table =
     \<lparr>columns =
        [\<lparr>name_of = ''Name'', dtype_of = DataType ''String'',
          values_of = [Some (StrValue ''Ana''), None, Some (StrValue ''Lee'')]\<rparr>,
         \<lparr>name_of = ''Age Years'', dtype_of = DataType ''Int64'',
          values_of = [Some (IntValue 10), None, None]\<rparr>],
      estimated_bytes = 40\<rparr>"

definition cleaned_example_table :: table where
  "cleaned_example_table =
     \<lparr>columns =
        [\<lparr>name_of = ''name'', dtype_of = DataType ''String'',
          values_of = [Some (StrValue ''Ana''), None, Some (StrValue ''Lee'')]\<rparr>,
         \<lparr>name_of = ''age_years'', dtype_of = DataType ''Int64'',
          values_of = [Some (IntValue 10), None, None]\<rparr>],
      estimated_bytes = 40\<rparr>"


text \<open>One column and no rows; and no columns at all.\<close>

definition no_rows_table :: table where
  "no_rows_table =
     \<lparr>columns = [\<lparr>name_of = ''a'', dtype_of = DataType ''Int64'', values_of = []\<rparr>],
      estimated_bytes = 0\<rparr>"

definition no_columns_table :: table where
  "no_columns_table = \<lparr>columns = [], estimated_bytes = 0\<rparr>"

text \<open>The first table with an estimated size of exactly \<open>1024\<^sup>2\<close> bytes.\<close>

definition mebibyte_table :: table where
  "mebibyte_table = example_table\<lparr>estimated_bytes := 1024 ^ 2\<rparr>"

text \<open>Frames on which one access raises: the size estimate or the null counts with an
  engine error, the shape or the height with an attribute error, the null counts with a
  keyboard interrupt.\<close>

definition size_fails :: dataframe where
  "size_fails = (DataFrame example_table)\<lparr>df_estimated_size := Inl (Exception ''size unavailable'')\<rparr>"

definition null_count_fails :: dataframe where
  "null_count_fails =
     (DataFrame example_table)\<lparr>df_null_count := Inl (Exception ''null counts unavailable'')\<rparr>"

definition shape_fails :: dataframe where
  "shape_fails = (DataFrame example_table)\<lparr>df_shape := Inl (Exception ''shape unavailable'')\<rparr>"

definition height_fails :: dataframe where
  "height_fails = (DataFrame example_table)\<lparr>df_height := Inl (Exception ''height unavailable'')\<rparr>"

definition null_count_interrupted :: dataframe where
  "null_count_interrupted =
     (DataFrame example_table)\<lparr>df_null_count := Inl (BaseException ''KeyboardInterrupt'')\<rparr>"

text \<open>An engine that refuses to transpose a frame without columns, and one that does it.\<close>

definition refusing_engine :: engine where
  "refusing_engine = \<lparr>refuses_empty_transpose = True\<rparr>"

definition transposing_engine :: engine where
  "transposing_engine = \<lparr>refuses_empty_transpose = False\<rparr>"

definition no_output :: io where
  "no_output = \<lparr>stdout = [], stderr = []\<rparr>"

section \<open>Properties of the registration\<close>










section \<open>Properties of the cleaning of column names\<close>

lemma output_name_chain:
  "output_name [to_lowercase, replace_space] n = replace_space (to_lowercase n)"
  by (simp add: output_name_def)

lemma first_duplicate_None:
  "first_duplicate seen ns = None \<longleftrightarrow> distinct ns \<and> set ns \<inter> set seen = {}"
  by (induction seen ns rule: first_duplicate.induct) auto

lemma first_duplicate_distinct: "first_duplicate [] ns = None \<longleftrightarrow> distinct ns"
  by (simp add: first_duplicate_None)

lemma of_char_to_lowercase_char:
  "of_char (to_lowercase_char c) =
     (if 65 \<le> (of_char c :: nat) \<and> (of_char c :: nat) \<le> 90 then of_char c + 32 else (of_char c :: nat))"
  by (simp add: to_lowercase_char_def Let_def take_bit_eq_mod)

lemma char_eq_code: "c = d \<longleftrightarrow> (of_char c :: nat) = of_char d"
  by simp

lemma to_lowercase_char_idem: "to_lowercase_char (to_lowercase_char c) = to_lowercase_char c"
  by (subst char_eq_code) (simp add: of_char_to_lowercase_char)

lemma to_lowercase_char_space: "to_lowercase_char c = CHR '' '' \<longleftrightarrow> c = CHR '' ''"
  by (subst (1 2) char_eq_code) (simp add: of_char_to_lowercase_char)

lemma to_lowercase_char_underscore: "to_lowercase_char CHR ''_'' = CHR ''_''"
  by (simp add: to_lowercase_char_def)

lemma clean_name_chars:
  "replace_space (to_lowercase n)
     = map (\<lambda>c. if c = CHR '' '' then CHR ''_'' else to_lowercase_char c) n"
  by (simp add: replace_space_def to_lowercase_def to_lowercase_char_space)

lemma clean_name_idem:
  "replace_space (to_lowercase (replace_space (to_lowercase n))) = replace_space (to_lowercase n)"
  by (simp add: clean_name_chars to_lowercase_char_idem to_lowercase_char_underscore
        to_lowercase_char_space)

lemma select_all_clean:
  "clean_column_names t =
     (case first_duplicate [] (map (\<lambda>c. replace_space (to_lowercase (name_of c))) (columns t)) of
        Some n \<Rightarrow> Inl (Exception (''the name '' @ [CHR 0x27] @ n @ [CHR 0x27] @ '' is duplicate''))
      | None \<Rightarrow> Inr (t\<lparr>columns := map (\<lambda>c. c\<lparr>name_of := replace_space (to_lowercase (name_of c))\<rparr>) (columns t)\<rparr>))"
  by (simp add: clean_column_names_def select_all_def output_name_chain o_def)

lemma clean_column_names_Inr:
  "distinct (map (\<lambda>c. replace_space (to_lowercase (name_of c))) (columns t)) \<Longrightarrow>
   clean_column_names t =
     Inr (t\<lparr>columns := map (\<lambda>c. c\<lparr>name_of := replace_space (to_lowercase (name_of c))\<rparr>) (columns t)\<rparr>)"
  by (simp add: select_all_clean first_duplicate_distinct [THEN iffD2])

lemma clean_column_names_Inl:
  "\<not> distinct (map (\<lambda>c. replace_space (to_lowercase (name_of c))) (columns t)) \<Longrightarrow>
   \<exists>msg. clean_column_names t = Inl (Exception msg)"
  using first_duplicate_distinct [of "map (\<lambda>c. replace_space (to_lowercase (name_of c))) (columns t)"]
  by (auto simp: select_all_clean split: option.splits)

lemma clean_column_names_InrD:
  assumes "clean_column_names t = Inr t'"
  shows "distinct (map (\<lambda>c. replace_space (to_lowercase (name_of c))) (columns t))"
    and "t' = t\<lparr>columns := map (\<lambda>c. c\<lparr>name_of := replace_space (to_lowercase (name_of c))\<rparr>) (columns t)\<rparr>"
proof -
  show d: "distinct (map (\<lambda>c. replace_space (to_lowercase (name_of c))) (columns t))"
    using assms clean_column_names_Inl [of t] by auto
  from clean_column_names_Inr [OF d] assms
  show "t' = t\<lparr>columns := map (\<lambda>c. c\<lparr>name_of := replace_space (to_lowercase (name_of c))\<rparr>) (columns t)\<rparr>"
    by simp
qed



lemma clean_example_table:
  "clean_column_names example_table =
     Inr cleaned_example_table"
  by code_simp





text \<open>
  C8. Cleaning is idempotent: cleaning the result of a cleaning changes nothing, and a
  cleaning that raises has no result to clean again (the two sides raise alike); on the
  names themselves, cleaning a cleaned name gives the same name.
\<close>

theorem clean_column_names_idempotent:
  "(case clean_column_names t of Inl e \<Rightarrow> Inl e | Inr t' \<Rightarrow> clean_column_names t')
      = clean_column_names t
   \<and> replace_space (to_lowercase (replace_space (to_lowercase n))) = replace_space (to_lowercase n)"
proof (cases "clean_column_names t")
  case (Inl e)
  then show ?thesis by (simp add: clean_name_idem)
next
  case (Inr t')
  note r = clean_column_names_InrD [OF Inr]
  have cols: "map (\<lambda>c. c\<lparr>name_of := replace_space (to_lowercase (name_of c))\<rparr>) (columns t')
              = columns t'"
    unfolding r(2) by (simp add: o_def clean_name_idem)
  have names: "map (\<lambda>c. replace_space (to_lowercase (name_of c))) (columns t')
              = map (\<lambda>c. replace_space (to_lowercase (name_of c))) (columns t)"
    unfolding r(2) by (simp add: o_def clean_name_idem)
  have "clean_column_names t' = Inr t'"
    using clean_column_names_Inr [of t'] r(1) unfolding names cols by simp
  with Inr show ?thesis by (simp add: clean_name_idem)
qed

theorem clean_column_names_idempotent_witness:
  "(case clean_column_names example_table of Inl e \<Rightarrow> Inl e | Inr t' \<Rightarrow> clean_column_names t')
      = clean_column_names example_table
   \<and> replace_space (to_lowercase (replace_space (to_lowercase ''Age Years'')))
      = replace_space (to_lowercase ''Age Years'')"
  using clean_column_names_idempotent [of example_table "''Age Years''"]
  by simp

text \<open>
  C9. A table returned by \<open>clean_column_names\<close> has the row count and the column count of
  the input, and its columns are the input's columns in the same order, each unchanged but
  for its name: same cells, same type. Nothing else of the table differs. The input is a
  value and the function computes a new one from it; there is no assignment to the input in
  the source, so the input is what it was.
\<close>

theorem clean_column_names_preserves:
  assumes "clean_column_names t = Inr t'"
  shows "height_of t' = height_of t \<and> width_of t' = width_of t
       \<and> list_all2 (\<lambda>c c'. c' = c\<lparr>name_of := name_of c'\<rparr>) (columns t) (columns t')
       \<and> map values_of (columns t') = map values_of (columns t)
       \<and> map dtype_of (columns t') = map dtype_of (columns t)
       \<and> t' = t\<lparr>columns := columns t'\<rparr>"
proof -
  note r = clean_column_names_InrD [OF assms]
  have h: "height_of t' = height_of t"
    unfolding r(2) by (cases "columns t") (simp_all add: height_of_def)
  have w: "width_of t' = width_of t"
    unfolding r(2) by (simp add: width_of_def)
  have l: "list_all2 (\<lambda>c c'. c' = c\<lparr>name_of := name_of c'\<rparr>) (columns t) (columns t')"
    unfolding r(2) by (simp add: list_all2_map2 list_all2_same)
  have v: "map values_of (columns t') = map values_of (columns t)"
    unfolding r(2) by (simp add: o_def)
  have d: "map dtype_of (columns t') = map dtype_of (columns t)"
    unfolding r(2) by (simp add: o_def)
  have e: "t' = t\<lparr>columns := columns t'\<rparr>"
    by (subst (1 2) r(2)) simp
  from h w l v d e show ?thesis by blast
qed

theorem clean_column_names_preserves_witness:
  "clean_column_names example_table = Inr cleaned_example_table
   \<and> height_of example_table = 3 \<and> width_of example_table = 2
   \<and> height_of cleaned_example_table = 3 \<and> width_of cleaned_example_table = 2"
proof -
  have h: "height_of example_table = 3" and w: "width_of example_table = 2"
    by (simp_all add: height_of_def width_of_def example_table_def)
  note r = clean_column_names_preserves [OF clean_example_table]
  from r h have h': "height_of cleaned_example_table = 3" by (simp only:)
  from r w have w': "width_of cleaned_example_table = 2" by (simp only:)
  from clean_example_table h w h' w' show ?thesis by blast
qed

section \<open>Properties of the summary report\<close>

lemma info_loop_stderr: "stderr (snd (info_loop n counts idx items s)) = stderr s"
  by (induction n counts idx items s rule: info_loop.induct) (simp_all add: print_out_def)

lemma info_loop_fst:
  "fst (info_loop n counts idx items s) =
     (if items = [] \<or> idx + length items \<le> length counts then Inr ()
      else Inl (Exception ''tuple index out of range''))"
  by (induction n counts idx items s rule: info_loop.induct) auto

lemma info_try_stderr: "stderr (snd (info_try self n s)) = stderr s"
proof -
  have loop: "\<And>a b c d r s1. info_loop a b c d s = (r, s1) \<Longrightarrow> stderr s1 = stderr s"
    using info_loop_stderr by (metis snd_conv)
  show ?thesis
    by (auto simp: info_try_def Let_def print_out_def split: sum.splits prod.splits dest: loop)
qed

lemma info_try_fst:
  "fst (info_try self n s) =
     (case df_null_count self of Inl e \<Rightarrow> Inl e | Inr counts \<Rightarrow>
     (case df_schema self of Inl e \<Rightarrow> Inl e | Inr items \<Rightarrow>
        if \<not> (items = [] \<or> length items \<le> length counts)
        then Inl (Exception ''tuple index out of range'')
        else (case df_estimated_size self of Inl e \<Rightarrow> Inl e | Inr m \<Rightarrow>
             (case df_dtypes self of Inl e \<Rightarrow> Inl e | Inr dts \<Rightarrow> Inr ()))))"
proof (cases "df_null_count self")
  case Inl
  then show ?thesis by (simp add: info_try_def)
next
  case counts: (Inr counts)
  show ?thesis
  proof (cases "df_schema self")
    case Inl
    then show ?thesis using counts by (simp add: info_try_def row_def)
  next
    case items: (Inr items)
    obtain r s1 where loop: "info_loop (int n) (map snd counts) 0 items s = (r, s1)"
      by (cases "info_loop (int n) (map snd counts) 0 items s")
    have r: "r = (if items = [] \<or> length items \<le> length counts then Inr ()
                  else Inl (Exception ''tuple index out of range''))"
      using info_loop_fst [of "int n" "map snd counts" 0 items s] loop by simp
    show ?thesis
    proof (cases "items = [] \<or> length items \<le> length counts")
      case False
      then show ?thesis using counts items loop r
        by (simp add: info_try_def row_def)
    next
      case True
      then have "r = Inr ()" using r by simp
      then show ?thesis using counts items loop True
        by (cases "df_estimated_size self"; cases "df_dtypes self")
           (simp_all add: info_try_def row_def Let_def)
    qed
  qed
qed

lemma pandas_style_info_handler:
  assumes "df_shape self = Inr (n_rows, n_cols)"
  shows "pandas_style_info self s =
     (case info_try self n_rows (s\<lparr>stdout := stdout s @ info_header n_rows n_cols\<rparr>) of
        (Inr _, s1) \<Rightarrow> (Inr (), s1)
      | (Inl (Exception msg), s1) \<Rightarrow>
          (Inr (), print_err (''Error generating info report: '' @ msg) s1)
      | (Inl (BaseException msg), s1) \<Rightarrow> (Inl (BaseException msg), s1))"
  using assms by (simp add: pandas_style_info_def)

lemma info_loop_columns:
  "info_loop n (map series_null_count (pre @ cols)) (length pre)
       (map (\<lambda>c. (name_of c, dtype_of c)) cols) s
   = (Inr (),
      s\<lparr>stdout := stdout s @
          map (\<lambda>(idx, c). Text (column_line idx (name_of c) (n - int (series_null_count c)) (dtype_of c)))
            (enumerate (length pre) cols)\<rparr>)"
proof (induction cols arbitrary: pre s)
  case Nil
  then show ?case by simp
next
  case (Cons c cols)
  have nth: "map series_null_count (pre @ c # cols) ! length pre = series_null_count c"
    by (simp add: nth_append)
  from Cons [of "pre @ [c]"] nth show ?case
    by (simp add: print_out_def)
qed

lemma info_try_DataFrame:
  "info_try (DataFrame t) n_rows s =
     (Inr (),
      s\<lparr>stdout := stdout s @
          map (\<lambda>(idx, c). Text (column_line idx (name_of c)
                 (int n_rows - int (series_null_count c)) (dtype_of c)))
            (enumerate 0 (columns t))
          @ [Text (replicate 60 CHR ''-''),
             DtypesLine (set (map (\<lambda>c. dtype_str (dtype_of c)) (columns t))),
             Text (''memory usage: '' @ mem_str (estimated_bytes t))]\<rparr>)"
  using info_loop_columns [of "int n_rows" "[]" "columns t" s]
  by (simp add: info_try_def DataFrame_def row_def print_out_def o_def)

lemma pandas_style_info_DataFrame:
  "pandas_style_info (DataFrame t) s =
     (Inr (),
      s\<lparr>stdout := stdout s @ info_header (height_of t) (width_of t) @
          map (\<lambda>(idx, c). Text (column_line idx (name_of c)
                 (int (height_of t) - int (series_null_count c)) (dtype_of c)))
            (enumerate 0 (columns t))
          @ [Text (replicate 60 CHR ''-''),
             DtypesLine (set (map (\<lambda>c. dtype_str (dtype_of c)) (columns t))),
             Text (''memory usage: '' @ mem_str (estimated_bytes t))]\<rparr>)"
proof -
  have "df_shape (DataFrame t) = Inr (height_of t, width_of t)"
    by (simp add: DataFrame_def)
  then show ?thesis
    by (simp add: pandas_style_info_def info_try_DataFrame)
qed


lemma mem_str_KB: "m \<le> 1024 ^ 2 \<Longrightarrow> mem_str m = format_2f m 1024 @ '' KB''"
  by (simp add: mem_str_def)

lemma mem_str_MB: "1024 ^ 2 < m \<Longrightarrow> mem_str m = format_2f m (1024 ^ 2) @ '' MB''"
  by (simp add: mem_str_def)

lemma suffix_KB_MB:
  "\<not> suffix '' MB'' (x @ '' KB'')" "\<not> suffix '' KB'' (x @ '' MB'')"
  "suffix '' KB'' (x @ '' KB'')" "suffix '' MB'' (x @ '' MB'')"
  by (simp_all add: suffix_def)


lemma info_header_example:
  "info_header 3 2 =
     [Text ''<class 'polars.DataFrame'>'',
      Text ''RangeIndex: 3 entries, 0 to 2'',
      Text ''Data columns (total 2 columns):'',
      Text ''#    Column                    Non-Null Count  Dtype     '',
      Text ''------------------------------------------------------------'']"
  by code_simp

lemma column_line_examples:
  "column_line 0 ''Name'' 2 (DataType ''String'')
     = ''0    Name                      2               String    ''"
  "column_line (Suc 0) ''Age Years'' 1 (DataType ''Int64'')
     = ''1    Age Years                 1               Int64     ''"
  "replicate 60 CHR ''-'' = ''------------------------------------------------------------''"
  by code_simp+

lemma mem_str_examples:
  "mem_str 40 = ''0.04 KB''" "mem_str 1048577 = ''1.00 MB''"
  by (simp_all add: mem_str_def format_2f_def round_half_even_def Let_def show_nat.simps digit_char_def)

lemma info_example:
  "pandas_style_info (DataFrame example_table) no_output =
     (Inr (),
      \<lparr>stdout =
         [Text ''<class 'polars.DataFrame'>'',
          Text ''RangeIndex: 3 entries, 0 to 2'',
          Text ''Data columns (total 2 columns):'',
          Text ''#    Column                    Non-Null Count  Dtype     '',
          Text ''------------------------------------------------------------'',
          Text ''0    Name                      2               String    '',
          Text ''1    Age Years                 1               Int64     '',
          Text ''------------------------------------------------------------'',
          DtypesLine {''String'', ''Int64''},
          Text ''memory usage: 0.04 KB''],
       stderr = []\<rparr>)"
proof -
  have h: "height_of example_table = 3" "width_of example_table = 2"
    by (simp_all add: height_of_def width_of_def example_table_def)
  have m: "estimated_bytes example_table = 40"
    by (simp add: example_table_def)
  have d: "set (map (\<lambda>c. dtype_str (dtype_of c)) (columns example_table)) = {''String'', ''Int64''}"
    by (simp add: example_table_def)
  have l: "map (\<lambda>(idx, c). Text (column_line idx (name_of c)
                 (int 3 - int (series_null_count c)) (dtype_of c)))
            (enumerate 0 (columns example_table))
        = [Text ''0    Name                      2               String    '',
           Text ''1    Age Years                 1               Int64     '']"
    by (simp add: example_table_def series_null_count_def column_line_examples(1,2))
  show ?thesis
    unfolding pandas_style_info_DataFrame h m d l info_header_example mem_str_examples
      column_line_examples(3)
    by (simp add: no_output_def)
qed

text \<open>
  C4. On a table with \<open>N\<close> columns and \<open>R\<close> rows the summary returns normally and
  prints, after the five header lines, exactly \<open>N\<close> column lines, numbered from 0 and one
  per column in schema order, each showing the column's name, \<open>R\<close> minus the column's
  null count, and the column's type; then the rule, the set of type names and the memory
  line. Nothing goes to the error stream.
\<close>

theorem pandas_style_info_column_lines:
  "pandas_style_info (DataFrame t) s =
     (Inr (),
      s\<lparr>stdout := stdout s @ info_header (height_of t) (width_of t) @
          map (\<lambda>(idx, c). Text (column_line idx (name_of c)
                 (int (height_of t) - int (series_null_count c)) (dtype_of c)))
            (enumerate 0 (columns t))
          @ [Text (replicate 60 CHR ''-''),
             DtypesLine (set (map (\<lambda>c. dtype_str (dtype_of c)) (columns t))),
             Text (''memory usage: '' @ mem_str (estimated_bytes t))]\<rparr>)
   \<and> length (map (\<lambda>(idx, c). Text (column_line idx (name_of c)
                 (int (height_of t) - int (series_null_count c)) (dtype_of c)))
            (enumerate 0 (columns t))) = width_of t
   \<and> map fst (enumerate 0 (columns t)) = [0 ..< width_of t]
   \<and> map snd (enumerate 0 (columns t)) = columns t"
  by (simp add: pandas_style_info_DataFrame width_of_def)


theorem pandas_style_info_column_lines_witness:
  "pandas_style_info (DataFrame example_table) no_output =
     (Inr (),
      \<lparr>stdout =
         [Text ''<class 'polars.DataFrame'>'',
          Text ''RangeIndex: 3 entries, 0 to 2'',
          Text ''Data columns (total 2 columns):'',
          Text ''#    Column                    Non-Null Count  Dtype     '',
          Text ''------------------------------------------------------------'',
          Text ''0    Name                      2               String    '',
          Text ''1    Age Years                 1               Int64     '',
          Text ''------------------------------------------------------------'',
          DtypesLine {''String'', ''Int64''},
          Text ''memory usage: 0.04 KB''],
       stderr = []\<rparr>)
   \<and> width_of example_table = 2"
proof -
  have w: "width_of example_table = 2"
    by (simp add: width_of_def example_table_def)
  from pandas_style_info_column_lines [of example_table no_output] w info_example
  show ?thesis by (simp only: simp_thms)
qed

text \<open>
  C5, as the code has it. The memory string is in kilobytes (bytes divided by 1024)
  exactly when the estimated size is at most \<open>1024\<^sup>2\<close> bytes, and in megabytes (bytes
  divided by \<open>1024\<^sup>2\<close>) exactly when it is strictly greater; it is what the last line of
  the summary shows.
\<close>

theorem mem_str_units:
  "(suffix '' KB'' (mem_str m) \<longleftrightarrow> m \<le> 1024 ^ 2)
   \<and> (suffix '' MB'' (mem_str m) \<longleftrightarrow> 1024 ^ 2 < m)
   \<and> mem_str m = (if m \<le> 1024 ^ 2 then format_2f m 1024 @ '' KB''
                   else format_2f m (1024 ^ 2) @ '' MB'')
   \<and> last (stdout (snd (pandas_style_info (DataFrame t) s)))
        = Text (''memory usage: '' @ mem_str (estimated_bytes t))"
proof (cases "m \<le> 1024 ^ 2")
  case True
  then show ?thesis
    using suffix_KB_MB [of "format_2f m 1024"]
    by (simp add: mem_str_KB pandas_style_info_DataFrame)
next
  case False
  then have "1024 ^ 2 < m" by simp
  then show ?thesis
    using suffix_KB_MB [of "format_2f m (1024 ^ 2)"]
    by (simp add: mem_str_MB pandas_style_info_DataFrame)
qed


theorem mem_str_units_witness:
  "suffix '' KB'' (mem_str 40) \<and> mem_str 40 = ''0.04 KB''
   \<and> suffix '' MB'' (mem_str 1048577) \<and> mem_str 1048577 = ''1.00 MB''"
  using mem_str_units [of 40 example_table no_output]
        mem_str_units [of 1048577 example_table no_output] mem_str_examples
  by simp

text \<open>
  The claim C5 as it is written puts a size of exactly \<open>1024\<^sup>2\<close> bytes on the megabyte
  side. The comparison in the code is strict: that size is printed in kilobytes.
\<close>

theorem mem_str_boundary:
  "mem_str (1024 ^ 2) = ''1024.00 KB''
   \<and> last (stdout (snd (pandas_style_info (DataFrame mebibyte_table) no_output)))
        = Text ''memory usage: 1024.00 KB''"
proof -
  have a: "mem_str (1024 ^ 2) = ''1024.00 KB''"
    by (simp add: mem_str_def format_2f_def round_half_even_def Let_def show_nat.simps digit_char_def)
  have "estimated_bytes mebibyte_table = 1024 ^ 2"
    by (simp add: mebibyte_table_def)
  then show ?thesis
    using a by (simp add: pandas_style_info_DataFrame)
qed

section \<open>Properties of the report of missing values\<close>

lemma f64_ge_total: "f64_ge a b \<or> f64_ge b a"
  by (cases a; cases b) auto

lemma f64_ge_trans: "f64_ge a b \<Longrightarrow> f64_ge b c \<Longrightarrow> f64_ge a c"
  by (cases a; cases b; cases c) auto

lemma mset_insert_descending: "mset (insert_descending r xs) = add_mset r (mset xs)"
  by (induction xs) auto

lemma mset_sort_descending: "mset (sort_descending xs) = mset xs"
  by (induction xs) (simp_all add: sort_descending_def mset_insert_descending)

lemma set_insert_descending: "set (insert_descending r xs) = insert r (set xs)"
  using mset_insert_descending [of r xs, THEN arg_cong, of set_mset] by simp

lemma sorted_insert_descending:
  "sorted_wrt (\<lambda>a b. f64_ge (null_percentage a) (null_percentage b)) xs \<Longrightarrow>
   sorted_wrt (\<lambda>a b. f64_ge (null_percentage a) (null_percentage b)) (insert_descending r xs)"
proof (induction xs)
  case Nil
  then show ?case by simp
next
  case (Cons x xs)
  show ?case
  proof (cases "f64_ge (null_percentage r) (null_percentage x)")
    case True
    with Cons.prems show ?thesis by (auto intro: f64_ge_trans)
  next
    case False
    then have "f64_ge (null_percentage x) (null_percentage r)"
      using f64_ge_total by blast
    with Cons False show ?thesis
      by (auto simp: set_insert_descending)
  qed
qed

lemma sorted_sort_descending:
  "sorted_wrt (\<lambda>a b. f64_ge (null_percentage a) (null_percentage b)) (sort_descending xs)"
  by (induction xs) (simp_all add: sort_descending_def sorted_insert_descending)

lemma null_stats_DataFrame:
  "null_stats eng (DataFrame t) total_rows =
     (if columns t = [] \<and> refuses_empty_transpose eng
      then Inl (Exception ''unable to transpose an empty DataFrame'')
      else Inr (sort_descending
             (filter (\<lambda>r. 0 < null_count r)
                (with_null_percentage total_rows
                   (map (\<lambda>c. (name_of c, series_null_count c)) (columns t))))))"
  by (simp add: null_stats_def DataFrame_def transpose_frame_def)

lemma null_report_DataFrame:
  "null_report eng (DataFrame t) s =
     (Inr (),
      if columns t = [] \<and> refuses_empty_transpose eng
      then s\<lparr>stderr := stderr s @
               [''Error generating null report: unable to transpose an empty DataFrame'']\<rparr>
      else if sort_descending
             (filter (\<lambda>r. 0 < null_count r)
                (with_null_percentage (height_of t)
                   (map (\<lambda>c. (name_of c, series_null_count c)) (columns t)))) = []
      then s\<lparr>stdout := stdout s @
               [Text (report_header (height_of t)), Text no_missing_message]\<rparr>
      else s\<lparr>stdout := stdout s @
               [Text (report_header (height_of t)),
                Frame (sort_descending
                  (filter (\<lambda>r. 0 < null_count r)
                    (with_null_percentage (height_of t)
                       (map (\<lambda>c. (name_of c, series_null_count c)) (columns t)))))]\<rparr>)"
proof -
  have h: "df_height (DataFrame t) = Inr (height_of t)"
    by (simp add: DataFrame_def)
  show ?thesis
    by (simp add: null_report_def h null_report_try_def null_stats_DataFrame
          print_out_def print_err_def Let_def)
qed

lemma printed_rows_null_report:
  "printed_rows (drop (length (stdout s)) (stdout (snd (null_report eng (DataFrame t) s))))
     = sort_descending
         (filter (\<lambda>r. 0 < null_count r)
            (with_null_percentage (height_of t)
               (map (\<lambda>c. (name_of c, series_null_count c)) (columns t))))"
  by (auto simp: null_report_DataFrame printed_rows_def with_null_percentage_def sort_descending_def)

lemma series_null_count_le: "series_null_count c \<le> length (values_of c)"
  by (simp add: series_null_count_def)

lemma wf_table_null_count_le:
  "wf_table t \<Longrightarrow> c \<in> set (columns t) \<Longrightarrow> series_null_count c \<le> height_of t"
  using series_null_count_le [of c] by (auto simp: wf_table_def list_all_iff)

lemma pct_rows:
  "map (\<lambda>r. (column_name r, null_count r)) (with_null_percentage total_rows rows) = rows"
  by (induction rows) (auto simp: with_null_percentage_def)

lemma filter_pct_rows:
  "map (\<lambda>r. (column_name r, null_count r))
      (filter (\<lambda>r. 0 < null_count r) (with_null_percentage total_rows rows))
   = filter (\<lambda>(n, k). 0 < k) rows"
  by (induction rows) (auto simp: with_null_percentage_def)

lemma null_percentage_finite:
  assumes "total_rows \<noteq> 0"
  shows "\<exists>x. round_2 (times_100 (true_div k total_rows)) = Finite x"
proof -
  from assms have "true_div k total_rows = Finite (of_nat k / of_nat total_rows)"
    by (simp add: true_div_def)
  then show ?thesis
    by (metis times_100.simps(1) round_2.simps(1))
qed

lemma null_report_example:
  "null_report transposing_engine (DataFrame example_table) no_output =
     (Inr (),
      \<lparr>stdout =
         [Text ''--- Missing Values Report (Total Rows: 3) ---'',
          Frame [\<lparr>column_name = ''Age Years'', null_count = 2, null_percentage = Finite (6667 / 100)\<rparr>,
                 \<lparr>column_name = ''Name'', null_count = 1, null_percentage = Finite (3333 / 100)\<rparr>]],
       stderr = []\<rparr>)"
  by code_simp

lemma wf_example_table: "wf_table example_table"
  by (simp add: wf_table_def example_table_def height_of_def)

text \<open>
  C2. The rows of the frame that the report prints are, with their counts, exactly the
  columns of the table whose null count is greater than 0 (as multisets, so none is lost
  or repeated), and their percentages are non-increasing from top to bottom in the
  engine's order of floats. On a well-formed table every printed percentage is a finite
  number, so they are non-increasing as numbers. (How the engine's printer lays the frame
  out, and whether it elides rows of a long frame, is outside the module.)
\<close>

theorem null_report_rows:
  "mset (map (\<lambda>r. (column_name r, null_count r))
       (printed_rows (drop (length (stdout s)) (stdout (snd (null_report eng (DataFrame t) s))))))
     = mset (filter (\<lambda>(n, k). 0 < k) (map (\<lambda>c. (name_of c, series_null_count c)) (columns t)))
   \<and> sorted_wrt (\<lambda>a b. f64_ge (null_percentage a) (null_percentage b))
       (printed_rows (drop (length (stdout s)) (stdout (snd (null_report eng (DataFrame t) s)))))
   \<and> (wf_table t \<longrightarrow>
       sorted_wrt (\<lambda>a b. \<exists>x y. null_percentage a = Finite x \<and> null_percentage b = Finite y \<and> y \<le> x)
         (printed_rows (drop (length (stdout s)) (stdout (snd (null_report eng (DataFrame t) s))))))"
proof -
  let ?counts = "map (\<lambda>c. (name_of c, series_null_count c)) (columns t)"
  let ?kept = "filter (\<lambda>r. 0 < null_count r) (with_null_percentage (height_of t) ?counts)"
  let ?rows = "printed_rows (drop (length (stdout s)) (stdout (snd (null_report eng (DataFrame t) s))))"
  have rows: "?rows = sort_descending ?kept"
    by (rule printed_rows_null_report)
  have "mset (map (\<lambda>r. (column_name r, null_count r)) (sort_descending ?kept))
        = mset (map (\<lambda>r. (column_name r, null_count r)) ?kept)"
    using mset_sort_descending [of ?kept] by (metis mset_map)
  then have A: "mset (map (\<lambda>r. (column_name r, null_count r)) ?rows)
        = mset (filter (\<lambda>(n, k). 0 < k) ?counts)"
    unfolding rows filter_pct_rows .
  have B: "sorted_wrt (\<lambda>a b. f64_ge (null_percentage a) (null_percentage b)) ?rows"
    unfolding rows by (rule sorted_sort_descending)
  have C: "sorted_wrt (\<lambda>a b. \<exists>x y. null_percentage a = Finite x \<and> null_percentage b = Finite y \<and> y \<le> x) ?rows"
    if wf: "wf_table t"
  proof -
    have fin: "\<exists>x. null_percentage r = Finite x" if "r \<in> set ?rows" for r
    proof -
      from that have "r \<in> set ?kept"
        unfolding rows using mset_sort_descending [of ?kept] by (metis set_mset_mset)
      then obtain c where c: "c \<in> set (columns t)" and pos: "0 < series_null_count c"
        and r: "null_percentage r = round_2 (times_100 (true_div (series_null_count c) (height_of t)))"
        by (auto simp: with_null_percentage_def)
      from wf_table_null_count_le [OF wf c] pos have "height_of t \<noteq> 0" by simp
      then show ?thesis unfolding r by (rule null_percentage_finite)
    qed
    show ?thesis
    proof (rule sorted_wrt_mono_rel [OF _ B])
      fix a b
      assume "a \<in> set ?rows" "b \<in> set ?rows"
        and "f64_ge (null_percentage a) (null_percentage b)"
      then show "\<exists>x y. null_percentage a = Finite x \<and> null_percentage b = Finite y \<and> y \<le> x"
        using fin [of a] fin [of b] by auto
    qed
  qed
  from A B C show ?thesis by blast
qed


theorem null_report_rows_witness:
  "wf_table example_table
   \<and> printed_rows (drop (length (stdout no_output))
         (stdout (snd (null_report transposing_engine (DataFrame example_table) no_output))))
      = [\<lparr>column_name = ''Age Years'', null_count = 2, null_percentage = Finite (6667 / 100)\<rparr>,
         \<lparr>column_name = ''Name'', null_count = 1, null_percentage = Finite (3333 / 100)\<rparr>]
   \<and> sorted_wrt (\<lambda>a b. \<exists>x y. null_percentage a = Finite x \<and> null_percentage b = Finite y \<and> y \<le> x)
        [\<lparr>column_name = ''Age Years'', null_count = 2, null_percentage = Finite (6667 / 100)\<rparr>,
         \<lparr>column_name = ''Name'', null_count = 1, null_percentage = Finite (3333 / 100)\<rparr>]"
proof -
  have rows: "printed_rows (drop (length (stdout no_output))
         (stdout (snd (null_report transposing_engine (DataFrame example_table) no_output))))
      = [\<lparr>column_name = ''Age Years'', null_count = 2, null_percentage = Finite (6667 / 100)\<rparr>,
         \<lparr>column_name = ''Name'', null_count = 1, null_percentage = Finite (3333 / 100)\<rparr>]"
    unfolding null_report_example by (simp add: printed_rows_def no_output_def)
  from null_report_rows [of no_output transposing_engine example_table, THEN conjunct2, THEN conjunct2, rule_format,
      OF wf_example_table]
  have "sorted_wrt (\<lambda>a b. \<exists>x y. null_percentage a = Finite x \<and> null_percentage b = Finite y \<and> y \<le> x)
        [\<lparr>column_name = ''Age Years'', null_count = 2, null_percentage = Finite (6667 / 100)\<rparr>,
         \<lparr>column_name = ''Name'', null_count = 1, null_percentage = Finite (3333 / 100)\<rparr>]"
    unfolding rows .
  with wf_example_table rows show ?thesis by blast
qed

lemma wf_table_no_rows:
  assumes "wf_table t" and "height_of t = 0" and "c \<in> set (columns t)"
  shows "series_null_count c = 0"
  using wf_table_null_count_le [OF assms(1,3)] assms(2) by simp

lemma no_rows_percentages:
  assumes "wf_table t" and "height_of t = 0"
  shows "with_null_percentage (height_of t) (map (\<lambda>c. (name_of c, series_null_count c)) (columns t))
         = map (\<lambda>c. \<lparr>column_name = name_of c, null_count = 0, null_percentage = NaN\<rparr>) (columns t)"
  using wf_table_no_rows [OF assms] assms(2)
  by (simp add: with_null_percentage_def true_div_def o_def)

lemma no_rows_kept:
  assumes "wf_table t" and "height_of t = 0"
  shows "sort_descending (filter (\<lambda>r. 0 < null_count r)
           (with_null_percentage (height_of t)
              (map (\<lambda>c. (name_of c, series_null_count c)) (columns t)))) = []"
  unfolding no_rows_percentages [OF assms]
  by (simp add: filter_map o_def sort_descending_def)

lemma wf_no_rows_table: "wf_table no_rows_table" "height_of no_rows_table = 0"
  "width_of no_rows_table = 1" "columns no_rows_table \<noteq> []"
  by (simp_all add: wf_table_def no_rows_table_def height_of_def width_of_def)

text \<open>
  C6, as the code has it. On a well-formed table without rows the report divides by the
  row count all the same: there is no guard for zero rows. The division does not raise;
  its result is the NaN of \<open>0 / 0\<close> for every column, not 0. The report returns
  normally and prints no row, so no percentage reaches the output: every null count is 0
  and the filter on the null count drops every row.
\<close>

theorem null_report_no_rows_division:
  assumes "wf_table t" and "height_of t = 0"
  shows "map null_percentage
           (with_null_percentage (height_of t)
              (map (\<lambda>c. (name_of c, series_null_count c)) (columns t)))
         = replicate (width_of t) NaN
       \<and> fst (null_report eng (DataFrame t) s) = Inr ()
       \<and> printed_rows (stdout (snd (null_report eng (DataFrame t) s))) = printed_rows (stdout s)"
proof -
  have a: "map null_percentage
           (with_null_percentage (height_of t)
              (map (\<lambda>c. (name_of c, series_null_count c)) (columns t)))
         = replicate (width_of t) NaN"
    unfolding no_rows_percentages [OF assms]
    by (simp add: o_def width_of_def map_replicate_const)
  have b: "fst (null_report eng (DataFrame t) s) = Inr ()"
    by (simp add: null_report_DataFrame)
  have c: "printed_rows (stdout (snd (null_report eng (DataFrame t) s))) = printed_rows (stdout s)"
    unfolding null_report_DataFrame no_rows_kept [OF assms]
    by (simp add: printed_rows_def)
  from a b c show ?thesis by blast
qed

theorem null_report_no_rows_division_witness:
  "wf_table no_rows_table \<and> height_of no_rows_table = 0
   \<and> fst (null_report refusing_engine (DataFrame no_rows_table) no_output) = Inr ()
   \<and> printed_rows (stdout (snd (null_report refusing_engine (DataFrame no_rows_table) no_output))) = []"
  using null_report_no_rows_division [OF wf_no_rows_table(1,2), of refusing_engine no_output] wf_no_rows_table(1,2)
  by (simp add: no_output_def printed_rows_def)

text \<open>
  The claim C6 as it is written has the percentage of every column treated as 0 on a table
  without rows. For the one column of \<open>no_rows_table\<close> the percentage computed is a NaN.
\<close>

theorem null_percentage_no_rows:
  "height_of no_rows_table = 0
   \<and> with_null_percentage (height_of no_rows_table)
        (map (\<lambda>c. (name_of c, series_null_count c)) (columns no_rows_table))
      = [\<lparr>column_name = ''a'', null_count = 0, null_percentage = NaN\<rparr>]"
  by (simp add: no_rows_table_def height_of_def with_null_percentage_def series_null_count_def
        true_div_def)



lemma engines: "refuses_empty_transpose refusing_engine" "\<not> refuses_empty_transpose transposing_engine"
  by (simp_all add: refusing_engine_def transposing_engine_def)



text \<open>
  What is left out above: on an engine that refuses to transpose a frame without columns,
  the report on the table without columns catches the refusal and prints the diagnostic
  alone.
\<close>

lemma null_report_no_columns_refused:
  "null_report refusing_engine (DataFrame no_columns_table) no_output =
       (Inr (),
        \<lparr>stdout = [],
         stderr = [''Error generating null report: unable to transpose an empty DataFrame'']\<rparr>)"
  by (simp add: null_report_DataFrame no_columns_table_def no_output_def engines)

section \<open>Failures inside the two reports\<close>

lemma null_report_try_stderr: "stderr (snd (null_report_try eng self n s)) = stderr s"
  by (simp add: null_report_try_def Let_def print_out_def split: sum.splits)

lemma null_report_try_fst: "fst (null_report_try eng self n s) = report_steps eng self"
  by (simp add: null_report_try_def null_stats_def transpose_frame_def Let_def split: sum.splits)

lemma null_report_handler:
  assumes "df_height self = Inr total_rows"
  shows "null_report eng self s =
     (case null_report_try eng self total_rows s of
        (Inr _, s1) \<Rightarrow> (Inr (), s1)
      | (Inl (Exception msg), s1) \<Rightarrow>
          (Inr (), print_err (''Error generating null report: '' @ msg) s1)
      | (Inl (BaseException msg), s1) \<Rightarrow> (Inl (BaseException msg), s1))"
  using assms by (simp add: null_report_def)

lemma pandas_style_info_outcome:
  assumes shape: "df_shape self = Inr sh"
  shows "fst (pandas_style_info self s) =
           (case info_steps self of Inl (BaseException m) \<Rightarrow> Inl (BaseException m) | _ \<Rightarrow> Inr ())"
    and "stderr (snd (pandas_style_info self s)) =
           (case info_steps self of
              Inl (Exception msg) \<Rightarrow> stderr s @ [''Error generating info report: '' @ msg]
            | _ \<Rightarrow> stderr s)"
proof -
  obtain n_rows n_cols where sh: "df_shape self = Inr (n_rows, n_cols)"
    using shape by (cases sh) auto
  define s0 where "s0 = s\<lparr>stdout := stdout s @ info_header n_rows n_cols\<rparr>"
  obtain r s1 where t: "info_try self n_rows s0 = (r, s1)"
    by (cases "info_try self n_rows s0")
  have err: "stderr s1 = stderr s"
    using info_try_stderr [of self n_rows s0] t by (simp add: s0_def)
  have r: "info_steps self = r"
    using info_try_fst [of self n_rows s0] t by simp
  have h: "pandas_style_info self s =
     (case r of Inr _ \<Rightarrow> (Inr (), s1)
      | Inl (Exception msg) \<Rightarrow> (Inr (), print_err (''Error generating info report: '' @ msg) s1)
      | Inl (BaseException msg) \<Rightarrow> (Inl (BaseException msg), s1))"
    using pandas_style_info_handler [OF sh, of s] t by (simp add: s0_def)
  show "fst (pandas_style_info self s) =
           (case info_steps self of Inl (BaseException m) \<Rightarrow> Inl (BaseException m) | _ \<Rightarrow> Inr ())"
    unfolding r h by (simp split: sum.splits exn.splits)
  show "stderr (snd (pandas_style_info self s)) =
           (case info_steps self of
              Inl (Exception msg) \<Rightarrow> stderr s @ [''Error generating info report: '' @ msg]
            | _ \<Rightarrow> stderr s)"
    unfolding r h by (simp add: err print_err_def split: sum.splits exn.splits)
qed

lemma null_report_outcome:
  assumes height: "df_height self = Inr total_rows"
  shows "fst (null_report eng self s) =
           (case report_steps eng self of
              Inl (BaseException m) \<Rightarrow> Inl (BaseException m) | _ \<Rightarrow> Inr ())"
    and "stderr (snd (null_report eng self s)) =
           (case report_steps eng self of
              Inl (Exception msg) \<Rightarrow> stderr s @ [''Error generating null report: '' @ msg]
            | _ \<Rightarrow> stderr s)"
proof -
  obtain r s1 where t: "null_report_try eng self total_rows s = (r, s1)"
    by (cases "null_report_try eng self total_rows s")
  have err: "stderr s1 = stderr s"
    using null_report_try_stderr [of eng self total_rows s] t by simp
  have r: "report_steps eng self = r"
    using null_report_try_fst [of eng self total_rows s] t by simp
  have h: "null_report eng self s =
     (case r of Inr _ \<Rightarrow> (Inr (), s1)
      | Inl (Exception msg) \<Rightarrow> (Inr (), print_err (''Error generating null report: '' @ msg) s1)
      | Inl (BaseException msg) \<Rightarrow> (Inl (BaseException msg), s1))"
    using null_report_handler [OF height, of eng s] t by simp
  show "fst (null_report eng self s) =
           (case report_steps eng self of
              Inl (BaseException m) \<Rightarrow> Inl (BaseException m) | _ \<Rightarrow> Inr ())"
    unfolding r h by (simp split: sum.splits exn.splits)
  show "stderr (snd (null_report eng self s)) =
           (case report_steps eng self of
              Inl (Exception msg) \<Rightarrow> stderr s @ [''Error generating null report: '' @ msg]
            | _ \<Rightarrow> stderr s)"
    unfolding r h by (simp add: err print_err_def split: sum.splits exn.splits)
qed

lemma reports_raise_before_try:
  "df_shape self = Inl e \<Longrightarrow> pandas_style_info self s = (Inl e, s)"
  "df_height self = Inl e \<Longrightarrow> null_report eng self s = (Inl e, s)"
  by (simp_all add: pandas_style_info_def null_report_def)

lemma failing_frames:
  "df_shape size_fails = Inr (3, 2)"
  "info_steps size_fails = Inl (Exception ''size unavailable'')"
  "df_height null_count_fails = Inr 3"
  "report_steps eng null_count_fails = Inl (Exception ''null counts unavailable'')"
  "df_shape null_count_interrupted = Inr (3, 2)"
  "info_steps null_count_interrupted = Inl (BaseException ''KeyboardInterrupt'')"
  "df_height null_count_interrupted = Inr 3"
  "report_steps eng null_count_interrupted = Inl (BaseException ''KeyboardInterrupt'')"
  "df_shape shape_fails = Inl (Exception ''shape unavailable'')"
  "df_height height_fails = Inl (Exception ''height unavailable'')"
  by (simp_all add: size_fails_def null_count_fails_def null_count_interrupted_def
        shape_fails_def height_fails_def DataFrame_def example_table_def
        height_of_def width_of_def series_null_count_def)

text \<open>
  C7, as the code has it. Reading the shape (for the summary) or the height (for the report
  of missing values) comes before the guarded block: an exception raised there leaves the
  operation, and nothing is printed. Once that access has succeeded, the outcome follows
  the first step of the guarded block that raises. If no step raises, the operation
  returns normally and the error stream is as it was. If that step raises an instance of
  \<^verbatim>\<open>Exception\<close>, the operation returns normally and the error stream receives one
  diagnostic (one call of \<^verbatim>\<open>print\<close>: the fixed prefix followed by the text of the
  exception). If it raises anything else, that exception leaves the operation and the
  error stream is as it was.
\<close>

theorem reports_catch_exceptions:
  "(df_shape self = Inl e \<longrightarrow> pandas_style_info self s = (Inl e, s))
   \<and> (df_shape self = Inr sh \<longrightarrow>
        fst (pandas_style_info self s) =
          (case info_steps self of Inl (BaseException m) \<Rightarrow> Inl (BaseException m) | _ \<Rightarrow> Inr ())
      \<and> stderr (snd (pandas_style_info self s)) =
          (case info_steps self of
             Inl (Exception msg) \<Rightarrow> stderr s @ [''Error generating info report: '' @ msg]
           | _ \<Rightarrow> stderr s))
   \<and> (df_height self = Inl e \<longrightarrow> null_report eng self s = (Inl e, s))
   \<and> (df_height self = Inr total_rows \<longrightarrow>
        fst (null_report eng self s) =
          (case report_steps eng self of
             Inl (BaseException m) \<Rightarrow> Inl (BaseException m) | _ \<Rightarrow> Inr ())
      \<and> stderr (snd (null_report eng self s)) =
          (case report_steps eng self of
             Inl (Exception msg) \<Rightarrow> stderr s @ [''Error generating null report: '' @ msg]
           | _ \<Rightarrow> stderr s))"
  using pandas_style_info_outcome [of self sh s] null_report_outcome [of self total_rows eng s]
    reports_raise_before_try [of self e]
  by blast

theorem reports_catch_exceptions_witness:
  "df_shape size_fails = Inr (3, 2)
   \<and> fst (pandas_style_info size_fails no_output) = Inr ()
   \<and> stderr (snd (pandas_style_info size_fails no_output))
       = [''Error generating info report: size unavailable'']
   \<and> df_height null_count_fails = Inr 3
   \<and> fst (null_report refusing_engine null_count_fails no_output) = Inr ()
   \<and> stderr (snd (null_report refusing_engine null_count_fails no_output))
       = [''Error generating null report: null counts unavailable'']
   \<and> df_shape null_count_interrupted = Inr (3, 2)
   \<and> fst (pandas_style_info null_count_interrupted no_output) = Inl (BaseException ''KeyboardInterrupt'')
   \<and> stderr (snd (pandas_style_info null_count_interrupted no_output)) = []
   \<and> df_shape shape_fails = Inl (Exception ''shape unavailable'')
   \<and> pandas_style_info shape_fails no_output = (Inl (Exception ''shape unavailable''), no_output)
   \<and> df_height height_fails = Inl (Exception ''height unavailable'')
   \<and> null_report refusing_engine height_fails no_output
       = (Inl (Exception ''height unavailable''), no_output)"
proof -
  have a: "fst (pandas_style_info size_fails no_output) = Inr ()
      \<and> stderr (snd (pandas_style_info size_fails no_output))
          = [''Error generating info report: size unavailable'']"
    using reports_catch_exceptions
            [of size_fails "Exception []" no_output "(3, 2)" refusing_engine 3]
    by (simp add: failing_frames no_output_def)
  have b: "fst (null_report refusing_engine null_count_fails no_output) = Inr ()
      \<and> stderr (snd (null_report refusing_engine null_count_fails no_output))
          = [''Error generating null report: null counts unavailable'']"
    using reports_catch_exceptions
            [of null_count_fails "Exception []" no_output "(3, 2)" refusing_engine 3]
    by (simp add: failing_frames no_output_def)
  have c: "fst (pandas_style_info null_count_interrupted no_output)
             = Inl (BaseException ''KeyboardInterrupt'')
      \<and> stderr (snd (pandas_style_info null_count_interrupted no_output)) = []"
    using reports_catch_exceptions
            [of null_count_interrupted "Exception []" no_output "(3, 2)" refusing_engine 3]
    by (simp add: failing_frames no_output_def)
  have d: "pandas_style_info shape_fails no_output = (Inl (Exception ''shape unavailable''), no_output)"
    using reports_catch_exceptions
            [of shape_fails "Exception ''shape unavailable''" no_output "(3, 2)" refusing_engine 3]
    by (simp add: failing_frames)
  have e: "null_report refusing_engine height_fails no_output
             = (Inl (Exception ''height unavailable''), no_output)"
    using reports_catch_exceptions
            [of height_fails "Exception ''height unavailable''" no_output "(3, 2)" refusing_engine 3]
    by (simp add: failing_frames)
  from a b c d e failing_frames(1,3,5,9,10) show ?thesis by blast
qed

text \<open>
  The claim C7 as it is written has no failure ever pass the boundary. An error raised
  when the shape or the height is read passes it, and so does a keyboard interrupt during
  the count of nulls.
\<close>

theorem reports_raise:
  "fst (pandas_style_info shape_fails no_output) = Inl (Exception ''shape unavailable'')
   \<and> fst (null_report refusing_engine height_fails no_output) = Inl (Exception ''height unavailable'')
   \<and> fst (null_report transposing_engine height_fails no_output) = Inl (Exception ''height unavailable'')
   \<and> fst (pandas_style_info null_count_interrupted no_output) = Inl (BaseException ''KeyboardInterrupt'')
   \<and> fst (null_report refusing_engine null_count_interrupted no_output)
       = Inl (BaseException ''KeyboardInterrupt'')
   \<and> fst (null_report transposing_engine null_count_interrupted no_output)
       = Inl (BaseException ''KeyboardInterrupt'')"
  by (simp add: pandas_style_info_def null_report_def shape_fails_def height_fails_def
        null_count_interrupted_def DataFrame_def info_try_def null_report_try_def null_stats_def)

end
